theory Spec2Isabelle
  imports Complex_Main "HOL-Library.Word"
begin

section \<open>The monitoring collector of stackdriver\_exporter\<close>

text \<open>
  A shallow embedding of \<^verbatim>\<open>collectors/monitoring_collector.go\<close>: the reduction of a page of
  time series to constant metrics (\<^verbatim>\<open>reportTimeSeriesMetrics\<close>), the bookkeeping of one
  scrape (\<^verbatim>\<open>Collect\<close>) and the fan-out of one page of metric descriptors
  (\<^verbatim>\<open>metricDescriptorsFunction\<close>) as an interleaving of goroutine steps.
\<close>

subsection \<open>Values of Go\<close>

text \<open>
  A \<^verbatim>\<open>float64\<close> is kept as its three IEEE 754 binary64 fields: the sign bit, the biased
  exponent (11 bits) and the fraction (52 bits). \<open>float64_real\<close> reads a finite one as a real
  number; an exponent field of 2047 (infinities, NaN) has none.
\<close>

datatype float64 = Float64 (sign: bool) (exponent: nat) (fraction: nat)


text \<open>The constants \<^verbatim>\<open>0\<close> and \<^verbatim>\<open>1\<close> of type \<^verbatim>\<open>float64\<close>.\<close>

definition float64_0 :: float64 where
  "float64_0 = Float64 False 0 0"

definition float64_1 :: float64 where
  "float64_1 = Float64 False 1023 0"

text \<open>The number of binary digits of a natural number.\<close>

fun bitlen :: "nat \<Rightarrow> nat" where
  "bitlen n = (if n = 0 then 0 else Suc (bitlen (n div 2)))"

declare bitlen.simps [simp del]

text \<open>
  The conversion \<^verbatim>\<open>float64(v)\<close> of an \<^verbatim>\<open>int64\<close>: Go rounds to the precision of the
  destination, IEEE 754 round-to-nearest with ties to even. A magnitude of at most 53 bits
  fits the significand; a longer one loses its low \<open>k - 52\<close> bits, and rounding up from
  \<open>2 ^ 53 - 1\<close> carries into the exponent.
\<close>

definition float64_of_int64 :: "64 word \<Rightarrow> float64" where
  "float64_of_int64 v =
     (let i = sint v; n = nat \<bar>i\<bar> in
      if n = 0 then Float64 False 0 0
      else
        let k = bitlen n - 1 in
        if k \<le> 52 then Float64 (i < 0) (k + 1023) ((n - 2 ^ k) * 2 ^ (52 - k))
        else
          let shift = k - 52;
              q = n div 2 ^ shift;
              r = n mod 2 ^ shift;
              half = 2 ^ (shift - 1);
              m = (if r > half \<or> (r = half \<and> odd q) then q + 1 else q)
          in if m = 2 ^ 53 then Float64 (i < 0) (k + 1024) 0
             else Float64 (i < 0) (k + 1023) (m - 2 ^ 52))"

text \<open>
  An instant of \<^verbatim>\<open>time.Time\<close> is the number of nanoseconds since the Unix epoch, unbounded
  as Go's instants reach far beyond 64 bits of nanoseconds; \<^verbatim>\<open>time.Unix(0, 0)\<close> is 0 and
  \<^verbatim>\<open>t.After(u)\<close> is \<open>u < t\<close>.
\<close>

type_synonym time = int

text \<open>
  What a call of the code can end in besides a normal return: an \<^verbatim>\<open>error\<close> value with
  its message, or a run-time panic (a nil pointer dereference).
\<close>

datatype failure = Error string | Panic

subsection \<open>The API's data\<close>

text \<open>
  The structs of \<^verbatim>\<open>google.golang.org/api/monitoring/v3\<close> that the collector reads, with
  the fields it reads. A pointer field is an option, \<open>None\<close> for nil. The two label maps are
  the lists of their entries in the order in which \<^verbatim>\<open>range\<close> happens to visit them: Go
  leaves that order open, and every statement below holds for each order.
\<close>

record typed_value =
  BoolValue :: "bool option"
  DoubleValue :: "float64 option"
  Int64Value :: "64 word option"

record time_interval =
  EndTime :: string

record point =
  Interval :: "time_interval option"
  Value :: "typed_value option"

record metric =
  Metric_Labels :: "(string \<times> string) list"
  Metric_Type :: string

record monitored_resource =
  Resource_Labels :: "(string \<times> string) list"
  Resource_Type :: string

record time_series =
  Metric :: "metric option"
  MetricKind :: string
  Points :: "point list"
  Resource :: "monitored_resource option"
  ValueType :: string

record metric_descriptor =
  Description :: string
  Descriptor_Type :: string
  Descriptor_Unit :: string

record list_time_series_response =
  NextPageToken :: string
  TimeSeries :: "time_series list"

subsection \<open>The libraries the collector calls\<close>

text \<open>
  Functions of other packages are parameters of the model: \<^verbatim>\<open>time.Parse\<close> and
  \<^verbatim>\<open>Time.Format\<close> at the layout \<^verbatim>\<open>time.RFC3339Nano\<close>, \<^verbatim>\<open>utils.NormalizeMetricName\<close>,
  \<^verbatim>\<open>prometheus.BuildFQName\<close> and \<^verbatim>\<open>Duration.Seconds\<close> (a floating-point quotient).
  \<open>parseTime\<close> returns the error's text on the left.
\<close>

record env =
  parseTime :: "string \<Rightarrow> string + time"
  formatTime :: "time \<Rightarrow> string"
  normalizeMetricName :: "string \<Rightarrow> string"
  buildFQName :: "string \<Rightarrow> string \<Rightarrow> string \<Rightarrow> string"
  seconds :: "64 word \<Rightarrow> float64"

text \<open>
  A constant metric as the collector hands it to \<^verbatim>\<open>prometheus.MustNewConstMetric\<close> and
  \<^verbatim>\<open>prometheus.NewDesc\<close>: the arguments of the two calls.
\<close>

datatype value_type = CounterValue | GaugeValue

record const_metric =
  fqName :: string
  helpText :: string
  labelKeys :: "string list"
  metricValueType :: value_type
  metricValue :: float64
  labelValues :: "string list"

subsection \<open>reportTimeSeriesMetrics\<close>

text \<open>
  The inner loop over the points of one series. It starts from the \<open>newestEndTime\<close> and the
  \<open>newestTSPoint\<close> it is given and replaces both at a point whose end time is after
  \<open>newestEndTime\<close>; a point without interval panics, an end time that does not parse
  returns the error.
\<close>

definition parseErrorMessage :: "string \<Rightarrow> string \<Rightarrow> string" where
  "parseErrorMessage s err =
     ''Error parsing TimeSeries Point interval end time `'' @ s @ ''`: '' @ err"

fun scanPoints :: "env \<Rightarrow> point list \<Rightarrow> time \<Rightarrow> point option \<Rightarrow> failure + (time \<times> point option)" where
  "scanPoints E [] newestEndTime newestTSPoint = Inr (newestEndTime, newestTSPoint)"
| "scanPoints E (p # ps) newestEndTime newestTSPoint =
     (case Interval p of
        None \<Rightarrow> Inl Panic
      | Some iv \<Rightarrow>
          (case parseTime E (EndTime iv) of
             Inl err \<Rightarrow> Inl (Error (parseErrorMessage (EndTime iv) err))
           | Inr endTime \<Rightarrow>
               if endTime > newestEndTime then scanPoints E ps endTime (Some p)
               else scanPoints E ps newestEndTime newestTSPoint))"

text \<open>
  The end time the loop reads off a point, where the point has an interval and
  \<^verbatim>\<open>time.Parse\<close> accepts its \<open>EndTime\<close>.
\<close>

definition endTimeOf :: "env \<Rightarrow> point \<Rightarrow> time option" where
  "endTimeOf E p =
     (case Interval p of
        None \<Rightarrow> None
      | Some iv \<Rightarrow> (case parseTime E (EndTime iv) of Inl err \<Rightarrow> None | Inr t \<Rightarrow> Some t))"

text \<open>The first switch: \<open>None\<close> is its \<^verbatim>\<open>default: continue\<close>.\<close>

definition kindValueType :: "string \<Rightarrow> value_type option" where
  "kindValueType k =
     (if k = ''GAUGE'' then Some GaugeValue
      else if k = ''DELTA'' then Some CounterValue
      else if k = ''CUMULATIVE'' then Some CounterValue
      else None)"

text \<open>
  The second switch, on the \<open>newestTSPoint\<close> in hand: \<open>Inr None\<close> is its
  \<^verbatim>\<open>default: continue\<close>, \<open>Inl Panic\<close> a nil \<open>newestTSPoint\<close>, a nil \<open>Value\<close> or a nil value
  field of the type the series names.
\<close>

definition pointValue :: "string \<Rightarrow> point option \<Rightarrow> failure + float64 option" where
  "pointValue vt newestTSPoint =
     (if vt = ''BOOL'' then
        (case newestTSPoint of None \<Rightarrow> Inl Panic | Some p \<Rightarrow>
         case Value p of None \<Rightarrow> Inl Panic | Some v \<Rightarrow>
         case BoolValue v of None \<Rightarrow> Inl Panic | Some b \<Rightarrow>
           Inr (Some (if b then float64_1 else float64_0)))
      else if vt = ''INT64'' then
        (case newestTSPoint of None \<Rightarrow> Inl Panic | Some p \<Rightarrow>
         case Value p of None \<Rightarrow> Inl Panic | Some v \<Rightarrow>
         case Int64Value v of None \<Rightarrow> Inl Panic | Some i \<Rightarrow>
           Inr (Some (float64_of_int64 i)))
      else if vt = ''DOUBLE'' then
        (case newestTSPoint of None \<Rightarrow> Inl Panic | Some p \<Rightarrow>
         case Value p of None \<Rightarrow> Inl Panic | Some v \<Rightarrow>
         case DoubleValue v of None \<Rightarrow> Inl Panic | Some d \<Rightarrow>
           Inr (Some d))
      else Inr None)"

text \<open>
  The label slices and the metric built for one series, with the value and the value type
  the switches chose; a series without resource or without metric panics.
\<close>

definition seriesMetric ::
  "env \<Rightarrow> metric_descriptor \<Rightarrow> time_series \<Rightarrow> value_type \<Rightarrow> float64 \<Rightarrow> failure + const_metric" where
  "seriesMetric E metricDescriptor timeSeries vt v =
     (case Resource timeSeries of None \<Rightarrow> Inl Panic | Some res \<Rightarrow>
      case Metric timeSeries of None \<Rightarrow> Inl Panic | Some m \<Rightarrow>
        Inr \<lparr>fqName = buildFQName E ''stackdriver'' ''monitoring''
                (normalizeMetricName E (Metric_Type m)),
             helpText = Description metricDescriptor,
             labelKeys = [''unit'', ''resource_type''] @ map fst (Metric_Labels m)
                @ map fst (Resource_Labels res),
             metricValueType = vt,
             metricValue = v,
             labelValues = [Descriptor_Unit metricDescriptor, Resource_Type res]
                @ map snd (Metric_Labels m) @ map snd (Resource_Labels res)\<rparr>)"

text \<open>
  One turn of the outer loop, for one series, entered with the \<open>newestTSPoint\<close> in hand:
  the metrics it sends to the channel (none or one), and either how it fails or the
  \<open>newestTSPoint\<close> it leaves. \<open>newestEndTime\<close> starts at \<^verbatim>\<open>time.Unix(0, 0)\<close>. Both
  \<^verbatim>\<open>continue\<close>s leave with nothing sent.
\<close>

definition seriesBody ::
  "env \<Rightarrow> metric_descriptor \<Rightarrow> time_series \<Rightarrow> point option \<Rightarrow>
     const_metric list \<times> (failure + point option)" where
  "seriesBody E metricDescriptor timeSeries newestTSPoint =
     (case scanPoints E (Points timeSeries) 0 newestTSPoint of
        Inl f \<Rightarrow> ([], Inl f)
      | Inr (newestEndTime, newestTSPoint') \<Rightarrow>
          (case kindValueType (MetricKind timeSeries) of
             None \<Rightarrow> ([], Inr newestTSPoint')
           | Some vt \<Rightarrow>
               (case pointValue (ValueType timeSeries) newestTSPoint' of
                  Inl f \<Rightarrow> ([], Inl f)
                | Inr None \<Rightarrow> ([], Inr newestTSPoint')
                | Inr (Some v) \<Rightarrow>
                    (case seriesMetric E metricDescriptor timeSeries vt v of
                       Inl f \<Rightarrow> ([], Inl f)
                     | Inr m \<Rightarrow> ([m], Inr newestTSPoint')))))"

text \<open>
  The outer loop over the series of the page. \<open>newestTSPoint\<close> is declared before the loop
  and so is carried from one series to the next. (\<open>metricValue\<close> and \<open>metricValueType\<close> are
  declared there too, but are assigned anew before every use.) The result is the metrics
  sent to the channel, in order, and how the call ended: \<open>None\<close> for \<^verbatim>\<open>return nil\<close>.
  Metrics sent before an error or a panic stay sent.
\<close>

fun seriesLoop ::
  "env \<Rightarrow> metric_descriptor \<Rightarrow> time_series list \<Rightarrow> point option \<Rightarrow>
     const_metric list \<times> failure option" where
  "seriesLoop E metricDescriptor [] newestTSPoint = ([], None)"
| "seriesLoop E metricDescriptor (timeSeries # rest) newestTSPoint =
     (case seriesBody E metricDescriptor timeSeries newestTSPoint of
        (out, Inl f) \<Rightarrow> (out, Some f)
      | (out, Inr newestTSPoint') \<Rightarrow>
          (let (out', r) = seriesLoop E metricDescriptor rest newestTSPoint'
           in (out @ out', r)))"

definition reportTimeSeriesMetrics ::
  "env \<Rightarrow> list_time_series_response \<Rightarrow> metric_descriptor \<Rightarrow>
     const_metric list \<times> failure option" where
  "reportTimeSeriesMetrics E page metricDescriptor =
     seriesLoop E metricDescriptor (TimeSeries page) None"

subsection \<open>Inputs for the examples\<close>

text \<open>
  A parser and a formatter that know the RFC 3339 strings the examples use, and nothing
  else; the other library functions are the identity, a join with underscores and the
  whole seconds of a duration.
\<close>

definition demoParse :: "string \<Rightarrow> string + time" where
  "demoParse s =
     (if s = ''1970-01-01T00:00:00Z'' then Inr 0
      else if s = ''2017-05-01T10:00:00Z'' then Inr 1493632800000000000
      else if s = ''2017-05-01T10:00:02Z'' then Inr 1493632802000000000
      else if s = ''2017-05-01T10:00:05Z'' then Inr 1493632805000000000
      else Inl ''cannot parse'')"

definition demoFormat :: "time \<Rightarrow> string" where
  "demoFormat t =
     (if t = 1493632500000000000 then ''2017-05-01T09:55:00Z''
      else if t = 1493632502000000000 then ''2017-05-01T09:55:02Z''
      else if t = 1493632800000000000 then ''2017-05-01T10:00:00Z''
      else if t = 1493632802000000000 then ''2017-05-01T10:00:02Z''
      else ''0001-01-01T00:00:00Z'')"

definition demoEnv :: env where
  "demoEnv = \<lparr>parseTime = demoParse, formatTime = demoFormat,
     normalizeMetricName = (\<lambda>s. s),
     buildFQName = (\<lambda>ns sub name. ns @ ''_'' @ sub @ ''_'' @ name),
     seconds = (\<lambda>d. float64_of_int64 (word_of_int (sint d div 1000000000)))\<rparr>"

definition demoDescriptor :: metric_descriptor where
  "demoDescriptor = \<lparr>Description = ''d'', Descriptor_Type = ''m'', Descriptor_Unit = ''1''\<rparr>"

definition int64Point :: "string \<Rightarrow> 64 word \<Rightarrow> point" where
  "int64Point s i =
     \<lparr>Interval = Some \<lparr>EndTime = s\<rparr>,
      Value = Some \<lparr>BoolValue = None, DoubleValue = None, Int64Value = Some i\<rparr>\<rparr>"

definition boolPoint :: "string \<Rightarrow> bool \<Rightarrow> point" where
  "boolPoint s b =
     \<lparr>Interval = Some \<lparr>EndTime = s\<rparr>,
      Value = Some \<lparr>BoolValue = Some b, DoubleValue = None, Int64Value = None\<rparr>\<rparr>"

definition doublePoint :: "string \<Rightarrow> float64 \<Rightarrow> point" where
  "doublePoint s d =
     \<lparr>Interval = Some \<lparr>EndTime = s\<rparr>,
      Value = Some \<lparr>BoolValue = None, DoubleValue = Some d, Int64Value = None\<rparr>\<rparr>"

definition demoSeries :: "string \<Rightarrow> string \<Rightarrow> point list \<Rightarrow> time_series" where
  "demoSeries kind vt ps =
     \<lparr>Metric = Some \<lparr>Metric_Labels = [(''zone'', ''a'')], Metric_Type = ''m''\<rparr>,
      MetricKind = kind, Points = ps,
      Resource = Some \<lparr>Resource_Labels = [(''zone'', ''b'')], Resource_Type = ''vm''\<rparr>,
      ValueType = vt\<rparr>"

definition demoPage :: "time_series list \<Rightarrow> list_time_series_response" where
  "demoPage tss = \<lparr>NextPageToken = [], TimeSeries = tss\<rparr>"


subsection \<open>The collector\<close>

text \<open>
  The struct \<^verbatim>\<open>MonitoringCollector\<close>. The three counters hold the number of their
  \<^verbatim>\<open>Inc\<close> calls; \<open>monitoringService\<close> is the \<open>api\<close> the functions below take.
\<close>

record monitoring_collector =
  projectID :: string
  metricsTypePrefixes :: "string list"
  metricsInterval :: "64 word"
  apiCallsTotalMetric :: nat
  scrapesTotalMetric :: nat
  scrapeErrorsTotalMetric :: nat
  lastScrapeErrorMetric :: float64
  lastScrapeTimestampMetric :: float64
  lastScrapeDurationSecondsMetric :: float64

subsection \<open>metricDescriptorsFunction: one page of metric descriptors\<close>

text \<open>
  A call of \<^verbatim>\<open>Projects.TimeSeries.List\<close> as \<^verbatim>\<open>Do\<close> sends it, and what \<^verbatim>\<open>Do\<close> returns:
  an error (its message), a nil page or a page. The remote side is a parameter: its answer
  may depend on the request and on how many requests the scope has made before.
\<close>

record request =
  parent :: string
  filter_param :: string
  intervalStartTime :: string
  intervalEndTime :: string
  pageToken_param :: string

datatype fetch_result = FetchError string | NilPage | Page list_time_series_response

record api =
  projectResource :: "string \<Rightarrow> string"
  timeSeriesList :: "nat \<Rightarrow> request \<Rightarrow> fetch_result"

text \<open>
  The goroutine started for one descriptor, by where it stands in its loop: about to call
  \<^verbatim>\<open>Do\<close>, at a send \<^verbatim>\<open>errChannel <- err\<close>, at the \<^verbatim>\<open>select\<close> with the default case, about
  to call \<^verbatim>\<open>reportTimeSeriesMetrics\<close> on the page, or past its loop (and its deferred
  \<^verbatim>\<open>wg.Done()\<close>).
\<close>

datatype task_pc =
    Fetching
  | Sending string
  | Draining list_time_series_response
  | Reporting list_time_series_response
  | Finished

record task =
  metricDescriptor :: metric_descriptor
  pc :: task_pc
  pageToken :: string

text \<open>
  The state of one call of \<^verbatim>\<open>metricDescriptorsFunction\<close>: the window it computed, its two
  channels (\<open>errChannel\<close> has capacity 1: \<open>None\<close> is the empty buffer; \<open>doneChannel\<close> is only
  ever closed), its goroutines, and what the call returned once its final \<^verbatim>\<open>select\<close> has
  chosen (\<open>Some None\<close> for nil). \<open>sent\<close> is what the goroutines have sent to \<^verbatim>\<open>ch\<close>,
  \<open>requests\<close> the calls made to the API and \<open>written\<close> the errors sent to \<open>errChannel\<close>, all
  in order. An unrecovered panic in a goroutine ends the program: nothing moves after.
\<close>

record scope =
  collector :: monitoring_collector
  startTime :: time
  endTime :: time
  errChannel :: "string option"
  doneChannel :: bool
  tasks :: "task list"
  returned :: "string option option"
  sent :: "const_metric list"
  requests :: "request list"
  written :: "string list"
  panicked :: bool

definition metricTypeFilter :: "string \<Rightarrow> string" where
  "metricTypeFilter t = ''metric.type='' @ [CHR 0x22] @ t @ [CHR 0x22]"

text \<open>
  The function up to its final \<^verbatim>\<open>select\<close>: the counter is incremented, the clock is read
  twice (\<open>now1\<close>, then \<open>now2\<close>), and one goroutine is started per descriptor of the page.
  \<^verbatim>\<open>c.metricsInterval * -1\<close> is a product of 64-bit integers.
\<close>

definition metricDescriptorsFunction ::
  "monitoring_collector \<Rightarrow> time \<Rightarrow> time \<Rightarrow> metric_descriptor list \<Rightarrow> scope" where
  "metricDescriptorsFunction c now1 now2 metricDescriptors =
     \<lparr>collector = c\<lparr>apiCallsTotalMetric := Suc (apiCallsTotalMetric c)\<rparr>,
      startTime = now1 + sint (metricsInterval c * (- 1)),
      endTime = now2,
      errChannel = None,
      doneChannel = False,
      tasks = map (\<lambda>d. \<lparr>metricDescriptor = d, pc = Fetching, pageToken = []\<rparr>) metricDescriptors,
      returned = None,
      sent = [],
      requests = [],
      written = [],
      panicked = False\<rparr>"

text \<open>The request a goroutine's \<open>timeSeriesListCall\<close> makes at its current page token.\<close>

definition timeSeriesListCall :: "env \<Rightarrow> api \<Rightarrow> scope \<Rightarrow> task \<Rightarrow> request" where
  "timeSeriesListCall E A s t =
     \<lparr>parent = projectResource A (projectID (collector s)),
      filter_param = metricTypeFilter (Descriptor_Type (metricDescriptor t)),
      intervalStartTime = formatTime E (startTime s),
      intervalEndTime = formatTime E (endTime s),
      pageToken_param = pageToken t\<rparr>"

definition setTask :: "nat \<Rightarrow> task \<Rightarrow> scope \<Rightarrow> scope" where
  "setTask i t s = s\<lparr>tasks := (tasks s)[i := t]\<rparr>"

text \<open>
  One step of the goroutine of descriptor \<open>i\<close>; \<open>None\<close> where it cannot move: it has
  finished, or it stands at a send while the buffer of \<open>errChannel\<close> is full.
  \<^item> \<open>Fetching\<close>: \<^verbatim>\<open>Inc()\<close>, \<^verbatim>\<open>Do()\<close>, and the two tests of its result.
  \<^item> \<open>Sending\<close>: the send, then \<^verbatim>\<open>break\<close>.
  \<^item> \<open>Draining\<close>: the \<^verbatim>\<open>select\<close>: a buffered error is received (and dropped, the
    \<^verbatim>\<open>break\<close> leaving only the \<^verbatim>\<open>select\<close>), else the default case.
  \<^item> \<open>Reporting\<close>: \<^verbatim>\<open>reportTimeSeriesMetrics\<close> with what it sends to \<^verbatim>\<open>ch\<close>, then the
    test of its error and of the next page token.
\<close>

definition taskStep :: "env \<Rightarrow> api \<Rightarrow> nat \<Rightarrow> scope \<Rightarrow> scope option" where
  "taskStep E A i s =
     (if length (tasks s) \<le> i then None
      else
        let t = tasks s ! i in
        case pc t of
          Fetching \<Rightarrow>
            (let req = timeSeriesListCall E A s t;
                 s' = s\<lparr>collector := (collector s)
                          \<lparr>apiCallsTotalMetric := Suc (apiCallsTotalMetric (collector s))\<rparr>,
                        requests := requests s @ [req]\<rparr>
             in case timeSeriesList A (length (requests s)) req of
                  FetchError err \<Rightarrow> Some (setTask i (t\<lparr>pc := Sending err\<rparr>) s')
                | NilPage \<Rightarrow> Some (setTask i (t\<lparr>pc := Finished\<rparr>) s')
                | Page page \<Rightarrow> Some (setTask i (t\<lparr>pc := Draining page\<rparr>) s'))
        | Sending err \<Rightarrow>
            (case errChannel s of
               Some e \<Rightarrow> None
             | None \<Rightarrow>
                 Some (setTask i (t\<lparr>pc := Finished\<rparr>)
                   (s\<lparr>errChannel := Some err, written := written s @ [err]\<rparr>)))
        | Draining page \<Rightarrow>
            Some (setTask i (t\<lparr>pc := Reporting page\<rparr>) (s\<lparr>errChannel := None\<rparr>))
        | Reporting page \<Rightarrow>
            (case reportTimeSeriesMetrics E page (metricDescriptor t) of
               (out, Some Panic) \<Rightarrow> Some (s\<lparr>sent := sent s @ out, panicked := True\<rparr>)
             | (out, Some (Error err)) \<Rightarrow>
                 Some (setTask i (t\<lparr>pc := Sending err\<rparr>) (s\<lparr>sent := sent s @ out\<rparr>))
             | (out, None) \<Rightarrow>
                 if NextPageToken page = []
                 then Some (setTask i (t\<lparr>pc := Finished\<rparr>) (s\<lparr>sent := sent s @ out\<rparr>))
                 else Some (setTask i (t\<lparr>pc := Fetching, pageToken := NextPageToken page\<rparr>)
                        (s\<lparr>sent := sent s @ out\<rparr>)))
        | Finished \<Rightarrow> None)"

text \<open>
  The goroutines of the scope: one per descriptor, the one that waits for the wait group
  and closes \<open>doneChannel\<close>, and the caller at its \<^verbatim>\<open>select\<close>, which can take either case
  that is ready.
\<close>

datatype actor = Task nat | Waiter | CoordinatorDone | CoordinatorErr

definition step :: "env \<Rightarrow> api \<Rightarrow> actor \<Rightarrow> scope \<Rightarrow> scope option" where
  "step E A a s =
     (if panicked s then None
      else case a of
        Task i \<Rightarrow> taskStep E A i s
      | Waiter \<Rightarrow>
          if \<not> doneChannel s \<and> list_all (\<lambda>t. pc t = Finished) (tasks s)
          then Some (s\<lparr>doneChannel := True\<rparr>) else None
      | CoordinatorDone \<Rightarrow>
          if returned s = None \<and> doneChannel s then Some (s\<lparr>returned := Some None\<rparr>) else None
      | CoordinatorErr \<Rightarrow>
          (case errChannel s of
             None \<Rightarrow> None
           | Some err \<Rightarrow>
               if returned s = None
               then Some (s\<lparr>errChannel := None, returned := Some (Some err)\<rparr>) else None))"

text \<open>A schedule is the order in which the goroutines move; it fails where one cannot.\<close>

fun run :: "env \<Rightarrow> api \<Rightarrow> actor list \<Rightarrow> scope \<Rightarrow> scope option" where
  "run E A [] s = Some s"
| "run E A (a # as) s = (case step E A a s of None \<Rightarrow> None | Some s' \<Rightarrow> run E A as s')"

definition actors :: "scope \<Rightarrow> actor list" where
  "actors s = map Task [0..<length (tasks s)] @ [Waiter, CoordinatorDone, CoordinatorErr]"

text \<open>The goroutines that can move.\<close>

definition enabled :: "env \<Rightarrow> api \<Rightarrow> scope \<Rightarrow> actor list" where
  "enabled E A s = filter (\<lambda>a. step E A a s \<noteq> None) (actors s)"

subsection \<open>reportMonitoringMetrics: the prefixes\<close>

text \<open>
  The outer fan-out has the same shape: one goroutine per metrics type prefix, a wait
  group, \<open>doneChannel\<close> and an \<open>errChannel\<close> of capacity 1 of its own. A prefix's goroutine
  calls \<^verbatim>\<open>Pages(ctx, metricDescriptorsFunction)\<close>, which lists the descriptors page by page
  and calls \<open>metricDescriptorsFunction\<close> on each; what that call returns for a prefix (nil,
  or the first error of a listing or of the function) is the parameter \<open>pages\<close>. The
  goroutine then stands at its send, or is finished. It has no \<^verbatim>\<open>select\<close> of its own.
\<close>

datatype prefix_pc = Listing | PrefixSending string | PrefixFinished

record prefix_task =
  metricsTypePrefix :: string
  prefix_pc :: prefix_pc

record top_scope =
  top_errChannel :: "string option"
  top_doneChannel :: bool
  prefixTasks :: "prefix_task list"
  top_returned :: "string option option"
  top_written :: "string list"

definition reportMonitoringMetrics :: "monitoring_collector \<Rightarrow> top_scope" where
  "reportMonitoringMetrics c =
     \<lparr>top_errChannel = None,
      top_doneChannel = False,
      prefixTasks = map (\<lambda>p. \<lparr>metricsTypePrefix = p, prefix_pc = Listing\<rparr>) (metricsTypePrefixes c),
      top_returned = None,
      top_written = []\<rparr>"

definition prefixStep :: "(string \<Rightarrow> string option) \<Rightarrow> nat \<Rightarrow> top_scope \<Rightarrow> top_scope option" where
  "prefixStep pages i u =
     (if length (prefixTasks u) \<le> i then None
      else
        let t = prefixTasks u ! i in
        case prefix_pc t of
          Listing \<Rightarrow>
            (case pages (metricsTypePrefix t) of
               Some err \<Rightarrow>
                 Some (u\<lparr>prefixTasks := (prefixTasks u)[i := t\<lparr>prefix_pc := PrefixSending err\<rparr>]\<rparr>)
             | None \<Rightarrow>
                 Some (u\<lparr>prefixTasks := (prefixTasks u)[i := t\<lparr>prefix_pc := PrefixFinished\<rparr>]\<rparr>))
        | PrefixSending err \<Rightarrow>
            (case top_errChannel u of
               Some e \<Rightarrow> None
             | None \<Rightarrow>
                 Some (u\<lparr>top_errChannel := Some err, top_written := top_written u @ [err],
                        prefixTasks := (prefixTasks u)[i := t\<lparr>prefix_pc := PrefixFinished\<rparr>]\<rparr>))
        | PrefixFinished \<Rightarrow> None)"

definition topStep :: "(string \<Rightarrow> string option) \<Rightarrow> actor \<Rightarrow> top_scope \<Rightarrow> top_scope option" where
  "topStep pages a u =
     (case a of
        Task i \<Rightarrow> prefixStep pages i u
      | Waiter \<Rightarrow>
          if \<not> top_doneChannel u \<and> list_all (\<lambda>t. prefix_pc t = PrefixFinished) (prefixTasks u)
          then Some (u\<lparr>top_doneChannel := True\<rparr>) else None
      | CoordinatorDone \<Rightarrow>
          if top_returned u = None \<and> top_doneChannel u
          then Some (u\<lparr>top_returned := Some None\<rparr>) else None
      | CoordinatorErr \<Rightarrow>
          (case top_errChannel u of
             None \<Rightarrow> None
           | Some err \<Rightarrow>
               if top_returned u = None
               then Some (u\<lparr>top_errChannel := None, top_returned := Some (Some err)\<rparr>)
               else None))"

fun topRun :: "(string \<Rightarrow> string option) \<Rightarrow> actor list \<Rightarrow> top_scope \<Rightarrow> top_scope option" where
  "topRun pages [] u = Some u"
| "topRun pages (a # as) u =
     (case topStep pages a u of None \<Rightarrow> None | Some u' \<Rightarrow> topRun pages as u')"

definition topEnabled :: "(string \<Rightarrow> string option) \<Rightarrow> top_scope \<Rightarrow> actor list" where
  "topEnabled pages u =
     filter (\<lambda>a. topStep pages a u \<noteq> None)
       (map Task [0..<length (prefixTasks u)] @ [Waiter, CoordinatorDone, CoordinatorErr])"

subsection \<open>Collect\<close>





subsection \<open>Inputs for the examples of the fan-out\<close>

text \<open>
  A collector with an interval of five minutes, and an API that serves one page of one
  series for the metric type \<open>ok\<close> and fails for every other type.
\<close>

definition demoCollector :: monitoring_collector where
  "demoCollector =
     \<lparr>projectID = ''p'', metricsTypePrefixes = [''compute''], metricsInterval = 300000000000,
      apiCallsTotalMetric = 0, scrapesTotalMetric = 0, scrapeErrorsTotalMetric = 0,
      lastScrapeErrorMetric = float64_0, lastScrapeTimestampMetric = float64_0,
      lastScrapeDurationSecondsMetric = float64_0\<rparr>"

definition descriptorOf :: "string \<Rightarrow> metric_descriptor" where
  "descriptorOf t = \<lparr>Description = ''d'', Descriptor_Type = t, Descriptor_Unit = ''1''\<rparr>"

definition demoApi :: api where
  "demoApi =
     \<lparr>projectResource = (\<lambda>p. ''projects/'' @ p),
      timeSeriesList = (\<lambda>n req.
        if filter_param req = metricTypeFilter ''ok''
        then Page (demoPage [demoSeries ''GAUGE'' ''INT64'' [int64Point ''2017-05-01T10:00:00Z'' 7]])
        else FetchError (''failed '' @ filter_param req))\<rparr>"


text \<open>
  A listing of descriptors that succeeds for the prefix \<open>ok\<close> and fails for every other,
  and a pipeline that sends one metric, counts two API calls and returns the error it is
  given.
\<close>

definition demoPages :: "string \<Rightarrow> string option" where
  "demoPages prefix = (if prefix = ''ok'' then None else Some (''failed '' @ prefix))"


section \<open>Properties\<close>

subsection \<open>The scan of a series' points\<close>

lemma endTimeOf_SomeD:
  "endTimeOf E p = Some t \<Longrightarrow> \<exists>iv. Interval p = Some iv \<and> parseTime E (EndTime iv) = Inr t"
  by (auto simp: endTimeOf_def split: option.splits sum.splits)

lemma scanPoints_Cons_parsed:
  "endTimeOf E p = Some t \<Longrightarrow>
   scanPoints E (p # ps) t0 prev =
     (if t0 < t then scanPoints E ps t (Some p) else scanPoints E ps t0 prev)"
  by (auto dest!: endTimeOf_SomeD)

lemma scanPoints_none_after:
  "map (endTimeOf E) ps = map Some ends \<Longrightarrow> \<forall>t\<in>set ends. t \<le> t0 \<Longrightarrow>
   scanPoints E ps t0 prev = Inr (t0, prev)"
proof (induction ps arbitrary: ends)
  case Nil
  then show ?case by simp
next
  case (Cons p ps)
  then obtain t ends' where e: "ends = t # ends'" "endTimeOf E p = Some t"
    "map (endTimeOf E) ps = map Some ends'"
    by (cases ends) auto
  with Cons.prems have "t \<le> t0" "\<forall>t\<in>set ends'. t \<le> t0" by auto
  with Cons.IH [OF e(3)] e(2) show ?case
    by (simp add: scanPoints_Cons_parsed del: scanPoints.simps)
qed

lemma scanPoints_newest:
  "map (endTimeOf E) ps = map Some ends \<Longrightarrow> \<exists>t\<in>set ends. t0 < t \<Longrightarrow>
   \<exists>i<length ends. scanPoints E ps t0 prev = Inr (ends ! i, Some (ps ! i)) \<and> t0 < ends ! i \<and>
      (\<forall>j<length ends. ends ! j \<le> ends ! i) \<and> (\<forall>j<i. ends ! j < ends ! i)"
proof (induction ps arbitrary: ends t0 prev)
  case Nil
  then show ?case by simp
next
  case (Cons p ps)
  then obtain t ends' where e: "ends = t # ends'" "endTimeOf E p = Some t"
    "map (endTimeOf E) ps = map Some ends'"
    by (cases ends) auto
  show ?case
  proof (cases "t0 < t")
    case True
    show ?thesis
    proof (cases "\<exists>u\<in>set ends'. t < u")
      case True
      from Cons.IH [OF e(3) True, of "Some p"] obtain i where i: "i < length ends'"
        "scanPoints E ps t (Some p) = Inr (ends' ! i, Some (ps ! i))" "t < ends' ! i"
        "\<forall>j<length ends'. ends' ! j \<le> ends' ! i" "\<forall>j<i. ends' ! j < ends' ! i"
        by blast
      have "\<forall>j<length ends. ends ! j \<le> ends ! Suc i"
        using i(3,4) e(1) by (auto simp: nth_Cons split: nat.splits)
      moreover have "\<forall>j<Suc i. ends ! j < ends ! Suc i"
        using i(3,5) e(1) by (auto simp: nth_Cons split: nat.splits)
      moreover have "scanPoints E (p # ps) t0 prev = Inr (ends ! Suc i, Some ((p # ps) ! Suc i))"
        using i(2) e(1,2) \<open>t0 < t\<close> by (simp add: scanPoints_Cons_parsed del: scanPoints.simps)
      moreover have "t0 < ends ! Suc i" using i(3) \<open>t0 < t\<close> e(1) by simp
      moreover have "Suc i < length ends" using i(1) e(1) by simp
      ultimately show ?thesis by blast
    next
      case False
      then have le: "\<forall>u\<in>set ends'. u \<le> t" by auto
      have "scanPoints E (p # ps) t0 prev = Inr (ends ! 0, Some ((p # ps) ! 0))"
        using scanPoints_none_after [OF e(3) le, of "Some p"] e(1,2) \<open>t0 < t\<close>
        by (simp add: scanPoints_Cons_parsed del: scanPoints.simps)
      moreover have "\<forall>j<length ends. ends ! j \<le> ends ! 0"
        using le e(1) by (auto simp: nth_Cons split: nat.splits)
      moreover have "t0 < ends ! 0" "0 < length ends" using \<open>t0 < t\<close> e(1) by simp_all
      ultimately show ?thesis by blast
    qed
  next
    case False
    with Cons.prems(2) e(1) have ex: "\<exists>u\<in>set ends'. t0 < u" by auto
    from Cons.IH [OF e(3) ex, of prev] obtain i where i: "i < length ends'"
      "scanPoints E ps t0 prev = Inr (ends' ! i, Some (ps ! i))" "t0 < ends' ! i"
      "\<forall>j<length ends'. ends' ! j \<le> ends' ! i" "\<forall>j<i. ends' ! j < ends' ! i"
      by blast
    have "\<forall>j<length ends. ends ! j \<le> ends ! Suc i"
      using i(3,4) e(1) False by (auto simp: nth_Cons split: nat.splits)
    moreover have "\<forall>j<Suc i. ends ! j < ends ! Suc i"
      using i(3,5) e(1) False by (auto simp: nth_Cons split: nat.splits)
    moreover have "scanPoints E (p # ps) t0 prev = Inr (ends ! Suc i, Some ((p # ps) ! Suc i))"
      using i(2) e(1,2) False by (simp add: scanPoints_Cons_parsed del: scanPoints.simps)
    moreover have "t0 < ends ! Suc i" "Suc i < length ends" using i(1,3) e(1) by simp_all
    ultimately show ?thesis by blast
  qed
qed

subsection \<open>Evaluating the examples\<close>

lemmas demo_defs = reportTimeSeriesMetrics_def seriesBody_def demoPage_def demoSeries_def
  int64Point_def demoEnv_def demoParse_def kindValueType_def pointValue_def seriesMetric_def
  demoDescriptor_def endTimeOf_def

lemma float64_of_int64_small [simp]:
  "float64_of_int64 1 = Float64 False 1023 0"
  "float64_of_int64 2 = Float64 False 1024 0"
  "float64_of_int64 3 = Float64 False 1024 (2 ^ 51)"
  "float64_of_int64 7 = Float64 False 1025 (3 * 2 ^ 50)"
  by (simp_all add: float64_of_int64_def bitlen.simps Let_def)

subsection \<open>Series without points\<close>

text \<open>
  Claim C1 says that a series whose points sequence is empty yields no metric and no error
  and leaves the rest of the page alone. The loop has no guard for it: with no point to
  scan, \<open>newestTSPoint\<close> keeps the point of the series before, and a series of a supported
  kind and value type is reported with that other series' value; where no series before
  left a point, the dereference of the nil \<open>newestTSPoint\<close> panics. Evaluated on a page of
  a series with one point of value 7 followed by a series without points, and on a page of
  the series without points alone:
\<close>

theorem empty_series_reuses_previous_point:
  "reportTimeSeriesMetrics demoEnv
     (demoPage [demoSeries ''GAUGE'' ''INT64'' [int64Point ''2017-05-01T10:00:00Z'' 7],
                demoSeries ''DELTA'' ''INT64'' []]) demoDescriptor =
   ([\<lparr>fqName = ''stackdriver_monitoring_m'', helpText = ''d'',
      labelKeys = [''unit'', ''resource_type'', ''zone'', ''zone''],
      metricValueType = GaugeValue, metricValue = float64_of_int64 7,
      labelValues = [''1'', ''vm'', ''a'', ''b'']\<rparr>,
     \<lparr>fqName = ''stackdriver_monitoring_m'', helpText = ''d'',
      labelKeys = [''unit'', ''resource_type'', ''zone'', ''zone''],
      metricValueType = CounterValue, metricValue = float64_of_int64 7,
      labelValues = [''1'', ''vm'', ''a'', ''b'']\<rparr>], None)
   \<and> reportTimeSeriesMetrics demoEnv (demoPage [demoSeries ''GAUGE'' ''INT64'' []]) demoDescriptor =
       ([], Some Panic)"
  by (simp add: demo_defs)

lemma seriesBody_emits_from:
  assumes "scanPoints E (Points ts) 0 prev = Inr (t, newest)"
      and "m \<in> set (fst (seriesBody E md ts prev))"
  shows "pointValue (ValueType ts) newest = Inr (Some (metricValue m))"
  using assms
  by (auto simp: seriesBody_def seriesMetric_def split: option.splits sum.splits)

subsection \<open>The newest point\<close>

text \<open>
  The scan keeps the point that ends last: for every series whose points' end times all
  parse (to \<open>ends\<close>, in scan order) and of which at least one lies after the Unix epoch,
  the scan selects a point whose end time is maximal, and the value of every metric the
  series sends is converted from that point.
\<close>

lemma newest_point_after_epoch_selected:
  assumes "map (endTimeOf E) (Points ts) = map Some ends"
      and "\<exists>t\<in>set ends. 0 < t"
  shows "\<exists>i<length ends. (\<forall>j<length ends. ends ! j \<le> ends ! i) \<and>
           scanPoints E (Points ts) 0 prev = Inr (ends ! i, Some (Points ts ! i)) \<and>
           (\<forall>m\<in>set (fst (seriesBody E md ts prev)).
              pointValue (ValueType ts) (Some (Points ts ! i)) = Inr (Some (metricValue m)))"
proof -
  from scanPoints_newest [OF assms, of prev] obtain i where i: "i < length ends"
    "scanPoints E (Points ts) 0 prev = Inr (ends ! i, Some (Points ts ! i))"
    "\<forall>j<length ends. ends ! j \<le> ends ! i"
    by blast
  from seriesBody_emits_from [OF i(2)] i show ?thesis by blast
qed

text \<open>
  The series of the example, with end times \<open>T\<close>, \<open>T + 5s\<close>, \<open>T + 2s\<close> and values 1, 2, 3:
  the value of the \<open>T + 5s\<close> point is sent.
\<close>

lemma newest_point_after_epoch_selected_example:
  "map (endTimeOf demoEnv)
     (Points (demoSeries ''GAUGE'' ''INT64''
        [int64Point ''2017-05-01T10:00:00Z'' 1, int64Point ''2017-05-01T10:00:05Z'' 2,
         int64Point ''2017-05-01T10:00:02Z'' 3])) =
   map Some [1493632800000000000, 1493632805000000000, 1493632802000000000] \<and>
   (0::int) < 1493632805000000000 \<and>
   map metricValue (fst (seriesBody demoEnv demoDescriptor
     (demoSeries ''GAUGE'' ''INT64''
        [int64Point ''2017-05-01T10:00:00Z'' 1, int64Point ''2017-05-01T10:00:05Z'' 2,
         int64Point ''2017-05-01T10:00:02Z'' 3]) None)) = [float64_of_int64 2]"
  using newest_point_after_epoch_selected [of demoEnv
     "demoSeries ''GAUGE'' ''INT64''
        [int64Point ''2017-05-01T10:00:00Z'' 1, int64Point ''2017-05-01T10:00:05Z'' 2,
         int64Point ''2017-05-01T10:00:02Z'' 3]"
     "[1493632800000000000, 1493632805000000000, 1493632802000000000]" None demoDescriptor]
  by (simp add: demo_defs)


subsection \<open>Points of equal end time\<close>

text \<open>
  Claim C3, amended: among the points that share the maximal end time, the one met first
  in scan order is selected, as \<^verbatim>\<open>endTime.After(newestEndTime)\<close> is strict: every point
  before the selected one ends strictly earlier. The end times parse and one of them lies
  after the epoch.
\<close>

theorem first_of_equal_newest_selected:
  assumes "map (endTimeOf E) (Points ts) = map Some ends"
      and "\<exists>t\<in>set ends. 0 < t"
  shows "\<exists>i<length ends. (\<forall>j<length ends. ends ! j \<le> ends ! i) \<and> (\<forall>j<i. ends ! j < ends ! i) \<and>
           scanPoints E (Points ts) 0 prev = Inr (ends ! i, Some (Points ts ! i)) \<and>
           (\<forall>m\<in>set (fst (seriesBody E md ts prev)).
              pointValue (ValueType ts) (Some (Points ts ! i)) = Inr (Some (metricValue m)))"
proof -
  from scanPoints_newest [OF assms, of prev] obtain i where i: "i < length ends"
    "scanPoints E (Points ts) 0 prev = Inr (ends ! i, Some (Points ts ! i))"
    "\<forall>j<length ends. ends ! j \<le> ends ! i" "\<forall>j<i. ends ! j < ends ! i"
    by blast
  from seriesBody_emits_from [OF i(2)] i show ?thesis by blast
qed

theorem first_of_equal_newest_selected_witness:
  "map (endTimeOf demoEnv)
     (Points (demoSeries ''GAUGE'' ''INT64''
        [int64Point ''2017-05-01T10:00:00Z'' 1, int64Point ''2017-05-01T10:00:05Z'' 2,
         int64Point ''2017-05-01T10:00:05Z'' 3])) =
   map Some [1493632800000000000, 1493632805000000000, 1493632805000000000] \<and>
   (0::int) < 1493632805000000000 \<and>
   map metricValue (fst (seriesBody demoEnv demoDescriptor
     (demoSeries ''GAUGE'' ''INT64''
        [int64Point ''2017-05-01T10:00:00Z'' 1, int64Point ''2017-05-01T10:00:05Z'' 2,
         int64Point ''2017-05-01T10:00:05Z'' 3]) None)) = [float64_of_int64 2]"
  using first_of_equal_newest_selected [of demoEnv
     "demoSeries ''GAUGE'' ''INT64''
        [int64Point ''2017-05-01T10:00:00Z'' 1, int64Point ''2017-05-01T10:00:05Z'' 2,
         int64Point ''2017-05-01T10:00:05Z'' 3]"
     "[1493632800000000000, 1493632805000000000, 1493632805000000000]" None demoDescriptor]
  by (simp add: demo_defs)

text \<open>
  As claim C3 states it (the last of the equal maxima wins), it fails on two points of the
  same end time with values 1 and 2: the value sent is 1.
\<close>

theorem last_of_equal_newest_counterexample:
  "map metricValue (fst (reportTimeSeriesMetrics demoEnv
     (demoPage [demoSeries ''GAUGE'' ''INT64''
        [int64Point ''2017-05-01T10:00:05Z'' 1, int64Point ''2017-05-01T10:00:05Z'' 2]])
     demoDescriptor)) = [float64_of_int64 1] \<and>
   float64_of_int64 1 \<noteq> float64_of_int64 2"
  by (simp add: demo_defs)

subsection \<open>Metric kinds and value types\<close>

lemma scanPoints_parsed:
  assumes "map (endTimeOf E) ps = map Some ends"
  shows "\<exists>t newest. scanPoints E ps t0 prev = Inr (t, newest)"
proof (cases "\<exists>t\<in>set ends. t0 < t")
  case True
  from scanPoints_newest [OF assms True, of prev] show ?thesis by blast
next
  case False
  then have "\<forall>t\<in>set ends. t \<le> t0" by auto
  from scanPoints_none_after [OF assms this, of prev] show ?thesis by blast
qed

lemma kindValueType_None:
  "k \<notin> {''GAUGE'', ''DELTA'', ''CUMULATIVE''} \<Longrightarrow> kindValueType k = None"
  by (simp add: kindValueType_def)

lemma pointValue_other:
  "vt \<notin> {''BOOL'', ''INT64'', ''DOUBLE''} \<Longrightarrow> pointValue vt newest = Inr None"
  by (simp add: pointValue_def)

lemma seriesBody_kind:
  assumes "m \<in> set (fst (seriesBody E md ts prev))"
  shows "kindValueType (MetricKind ts) = Some (metricValueType m)"
  using assms
  by (auto simp: seriesBody_def seriesMetric_def split: option.splits sum.splits)

lemma seriesBody_emits:
  assumes "scanPoints E (Points ts) 0 prev = Inr (t, newest)"
      and "kindValueType (MetricKind ts) = Some vt"
      and "pointValue (ValueType ts) newest = Inr (Some v)"
      and "Metric ts = Some met" and "Resource ts = Some res"
  shows "\<exists>m. seriesBody E md ts prev = ([m], Inr newest) \<and> metricValueType m = vt \<and>
           metricValue m = v"
  using assms by (simp add: seriesBody_def seriesMetric_def)

text \<open>
  Claim C6, amended. Of one turn of the loop, with \<open>out\<close> the metrics it sends: a series of
  kind \<^verbatim>\<open>GAUGE\<close> sends gauges only and a series of kind \<^verbatim>\<open>DELTA\<close> or \<^verbatim>\<open>CUMULATIVE\<close> counters
  only; a series of one of these kinds whose scan ends with a point in hand that has a
  value of the series' value type, and that has a metric and a resource, sends exactly one
  metric, with that value; a series of another kind or of a value type other than
  \<^verbatim>\<open>BOOL\<close>, \<^verbatim>\<open>INT64\<close>, \<^verbatim>\<open>DOUBLE\<close> sends nothing and raises no error, provided that its
  points have end times that parse: the points are scanned before the two switches.
\<close>

theorem kind_and_value_type_mapping:
  assumes "seriesBody E md ts prev = (out, r)"
  shows "(MetricKind ts = ''GAUGE'' \<longrightarrow> (\<forall>m\<in>set out. metricValueType m = GaugeValue)) \<and>
         (MetricKind ts = ''DELTA'' \<or> MetricKind ts = ''CUMULATIVE'' \<longrightarrow>
            (\<forall>m\<in>set out. metricValueType m = CounterValue)) \<and>
         (\<forall>t newest v met res.
            MetricKind ts \<in> {''GAUGE'', ''DELTA'', ''CUMULATIVE''} \<and>
            scanPoints E (Points ts) 0 prev = Inr (t, newest) \<and>
            pointValue (ValueType ts) newest = Inr (Some v) \<and>
            Metric ts = Some met \<and> Resource ts = Some res \<longrightarrow>
              (\<exists>m. out = [m] \<and> metricValue m = v) \<and> r = Inr newest) \<and>
         ((MetricKind ts \<notin> {''GAUGE'', ''DELTA'', ''CUMULATIVE''} \<or>
           ValueType ts \<notin> {''BOOL'', ''INT64'', ''DOUBLE''}) \<and>
          (\<exists>ends. map (endTimeOf E) (Points ts) = map Some ends) \<longrightarrow>
            out = [] \<and> (\<exists>newest. r = Inr newest))"
proof -
  have k: "\<forall>m\<in>set out. kindValueType (MetricKind ts) = Some (metricValueType m)"
    using seriesBody_kind [of _ E md ts prev] assms by simp
  have "MetricKind ts = ''GAUGE'' \<longrightarrow> (\<forall>m\<in>set out. metricValueType m = GaugeValue)"
    using k by (auto simp: kindValueType_def)
  moreover have "MetricKind ts = ''DELTA'' \<or> MetricKind ts = ''CUMULATIVE'' \<longrightarrow>
            (\<forall>m\<in>set out. metricValueType m = CounterValue)"
    using k by (auto simp: kindValueType_def)
  moreover have "\<forall>t newest v met res.
            MetricKind ts \<in> {''GAUGE'', ''DELTA'', ''CUMULATIVE''} \<and>
            scanPoints E (Points ts) 0 prev = Inr (t, newest) \<and>
            pointValue (ValueType ts) newest = Inr (Some v) \<and>
            Metric ts = Some met \<and> Resource ts = Some res \<longrightarrow>
              (\<exists>m. out = [m] \<and> metricValue m = v) \<and> r = Inr newest"
  proof (intro allI impI)
    fix t newest v met res
    assume a: "MetricKind ts \<in> {''GAUGE'', ''DELTA'', ''CUMULATIVE''} \<and>
            scanPoints E (Points ts) 0 prev = Inr (t, newest) \<and>
            pointValue (ValueType ts) newest = Inr (Some v) \<and>
            Metric ts = Some met \<and> Resource ts = Some res"
    then obtain vt where kv: "kindValueType (MetricKind ts) = Some vt"
      by (auto simp: kindValueType_def)
    from a have sc: "scanPoints E (Points ts) 0 prev = Inr (t, newest)"
      and pv: "pointValue (ValueType ts) newest = Inr (Some v)"
      and mr: "Metric ts = Some met" "Resource ts = Some res"
      by simp_all
    from seriesBody_emits [OF sc kv pv mr, of md] assms
    show "(\<exists>m. out = [m] \<and> metricValue m = v) \<and> r = Inr newest" by auto
  qed
  moreover have "(MetricKind ts \<notin> {''GAUGE'', ''DELTA'', ''CUMULATIVE''} \<or>
           ValueType ts \<notin> {''BOOL'', ''INT64'', ''DOUBLE''}) \<and>
          (\<exists>ends. map (endTimeOf E) (Points ts) = map Some ends) \<longrightarrow>
            out = [] \<and> (\<exists>newest. r = Inr newest)"
  proof
    assume a: "(MetricKind ts \<notin> {''GAUGE'', ''DELTA'', ''CUMULATIVE''} \<or>
           ValueType ts \<notin> {''BOOL'', ''INT64'', ''DOUBLE''}) \<and>
          (\<exists>ends. map (endTimeOf E) (Points ts) = map Some ends)"
    then obtain ends where "map (endTimeOf E) (Points ts) = map Some ends" by blast
    from scanPoints_parsed [OF this, of 0 prev] obtain t newest where
      sc: "scanPoints E (Points ts) 0 prev = Inr (t, newest)" by blast
    from a have "kindValueType (MetricKind ts) = None \<or>
        pointValue (ValueType ts) newest = Inr None"
      using kindValueType_None [of "MetricKind ts"] pointValue_other [of "ValueType ts" newest]
      by blast
    then have "seriesBody E md ts prev = ([], Inr newest)"
      using sc by (auto simp: seriesBody_def split: option.splits)
    with assms show "out = [] \<and> (\<exists>newest. r = Inr newest)" by auto
  qed
  ultimately show ?thesis by blast
qed

lemma float64_of_int64_42: "float64_of_int64 42 = Float64 False 1028 (5 * 2 ^ 48)"
  by (simp add: float64_of_int64_def bitlen.simps Let_def)

text \<open>
  A \<^verbatim>\<open>GAUGE\<close> series of a \<^verbatim>\<open>BOOL\<close> point sends one gauge of value 1, a \<^verbatim>\<open>CUMULATIVE\<close> series
  of a \<^verbatim>\<open>DOUBLE\<close> point a counter of that value, a \<^verbatim>\<open>DELTA\<close> series of the \<^verbatim>\<open>INT64\<close> value
  42 a counter of value 42; a \<^verbatim>\<open>DISTRIBUTION\<close> series and a series of kind
  \<^verbatim>\<open>METRIC_KIND_UNSPECIFIED\<close> whose point parses send nothing and end without error.
\<close>

theorem kind_and_value_type_mapping_witness:
  "seriesBody demoEnv demoDescriptor
     (demoSeries ''GAUGE'' ''BOOL'' [boolPoint ''2017-05-01T10:00:00Z'' True]) None =
   ([\<lparr>fqName = ''stackdriver_monitoring_m'', helpText = ''d'',
      labelKeys = [''unit'', ''resource_type'', ''zone'', ''zone''],
      metricValueType = GaugeValue, metricValue = float64_1,
      labelValues = [''1'', ''vm'', ''a'', ''b'']\<rparr>],
    Inr (Some (boolPoint ''2017-05-01T10:00:00Z'' True))) \<and>
   map (\<lambda>m. (metricValueType m, metricValue m)) (fst (seriesBody demoEnv demoDescriptor
     (demoSeries ''CUMULATIVE'' ''DOUBLE''
        [doublePoint ''2017-05-01T10:00:00Z'' (Float64 False 1024 2567051787601183)]) None)) =
     [(CounterValue, Float64 False 1024 2567051787601183)] \<and>
   map (\<lambda>m. (metricValueType m, metricValue m)) (fst (seriesBody demoEnv demoDescriptor
     (demoSeries ''DELTA'' ''INT64'' [int64Point ''2017-05-01T10:00:00Z'' 42]) None)) =
     [(CounterValue, Float64 False 1028 (5 * 2 ^ 48))] \<and>
   map (endTimeOf demoEnv) [int64Point ''2017-05-01T10:00:00Z'' 42] =
     map Some [1493632800000000000] \<and>
   seriesBody demoEnv demoDescriptor
     (demoSeries ''GAUGE'' ''DISTRIBUTION'' [int64Point ''2017-05-01T10:00:00Z'' 42]) None =
     ([], Inr (Some (int64Point ''2017-05-01T10:00:00Z'' 42))) \<and>
   seriesBody demoEnv demoDescriptor
     (demoSeries ''METRIC_KIND_UNSPECIFIED'' ''INT64'' [int64Point ''2017-05-01T10:00:00Z'' 42])
     None = ([], Inr (Some (int64Point ''2017-05-01T10:00:00Z'' 42)))"
  using kind_and_value_type_mapping [of demoEnv demoDescriptor
     "demoSeries ''GAUGE'' ''BOOL'' [boolPoint ''2017-05-01T10:00:00Z'' True]" None
     "fst (seriesBody demoEnv demoDescriptor
        (demoSeries ''GAUGE'' ''BOOL'' [boolPoint ''2017-05-01T10:00:00Z'' True]) None)"
     "snd (seriesBody demoEnv demoDescriptor
        (demoSeries ''GAUGE'' ''BOOL'' [boolPoint ''2017-05-01T10:00:00Z'' True]) None)"]
  by (simp add: demo_defs boolPoint_def doublePoint_def float64_of_int64_42)

text \<open>
  As claim C6 states it, for any series of another kind or value type, it fails on a
  \<^verbatim>\<open>DISTRIBUTION\<close> series with a point whose end time does not parse: the call returns the
  parse error.
\<close>

theorem unsupported_series_parse_error_counterexample:
  "ValueType (demoSeries ''GAUGE'' ''DISTRIBUTION'' [int64Point ''yesterday'' 42]) \<notin>
     {''BOOL'', ''INT64'', ''DOUBLE''} \<and>
   reportTimeSeriesMetrics demoEnv
     (demoPage [demoSeries ''GAUGE'' ''DISTRIBUTION'' [int64Point ''yesterday'' 42]])
     demoDescriptor =
   ([], Some (Error ''Error parsing TimeSeries Point interval end time `yesterday`: cannot parse''))"
  by (simp add: demo_defs parseErrorMessage_def)

subsection \<open>The value of the newest point\<close>









subsection \<open>Labels\<close>

lemma seriesBody_labels:
  assumes "m \<in> set (fst (seriesBody E md ts prev))"
  shows "\<exists>met res. Metric ts = Some met \<and> Resource ts = Some res \<and>
           labelKeys m = ''unit'' # ''resource_type'' # map fst (Metric_Labels met) @
             map fst (Resource_Labels res) \<and>
           labelValues m = Descriptor_Unit md # Resource_Type res # map snd (Metric_Labels met) @
             map snd (Resource_Labels res)"
  using assms
  by (auto simp: seriesBody_def seriesMetric_def split: option.splits sum.splits)

lemma seriesLoop_labels:
  "m \<in> set (fst (seriesLoop E md tss prev)) \<Longrightarrow>
   \<exists>ts\<in>set tss. \<exists>met res. Metric ts = Some met \<and> Resource ts = Some res \<and>
           labelKeys m = ''unit'' # ''resource_type'' # map fst (Metric_Labels met) @
             map fst (Resource_Labels res) \<and>
           labelValues m = Descriptor_Unit md # Resource_Type res # map snd (Metric_Labels met) @
             map snd (Resource_Labels res)"
proof (induction tss arbitrary: prev)
  case Nil
  then show ?case by simp
next
  case (Cons ts tss)
  obtain o1 r1 where b: "seriesBody E md ts prev = (o1, r1)"
    by (cases "seriesBody E md ts prev")
  show ?case
  proof (cases "m \<in> set o1")
    case True
    with seriesBody_labels [of m E md ts prev] b show ?thesis by auto
  next
    case False
    show ?thesis
    proof (cases r1)
      case (Inl f)
      with Cons.prems b False show ?thesis by simp
    next
      case (Inr newest)
      with Cons.prems b False have "m \<in> set (fst (seriesLoop E md tss newest))"
        by (auto split: prod.splits)
      from Cons.IH [OF this] show ?thesis by auto
    qed
  qed
qed

text \<open>
  Claim C8. A series with a metric and a resource is given the label keys \<open>unit\<close>,
  \<open>resource_type\<close>, the keys of the metric labels, the keys of the resource labels, and
  the values at the same positions, whatever the labels are. Every metric that
  \<open>reportTimeSeriesMetrics\<close> sends has \<open>unit\<close> and \<open>resource_type\<close> as its first two keys
  and as many values as keys, and keys paired with values are the unit, the resource type
  and the entries of the two label maps of a series of the page, all of them: an entry of
  the resource labels under a key of the metric labels is kept.
\<close>

theorem label_keys_and_values:
  "(\<forall>ts vt v met res. Metric ts = Some met \<and> Resource ts = Some res \<longrightarrow>
      (\<exists>m. seriesMetric E md ts vt v = Inr m \<and>
         labelKeys m = ''unit'' # ''resource_type'' # map fst (Metric_Labels met) @
           map fst (Resource_Labels res) \<and>
         labelValues m = Descriptor_Unit md # Resource_Type res # map snd (Metric_Labels met) @
           map snd (Resource_Labels res))) \<and>
   (\<forall>m\<in>set (fst (reportTimeSeriesMetrics E page md)).
     labelKeys m ! 0 = ''unit'' \<and> labelKeys m ! 1 = ''resource_type'' \<and>
     length (labelKeys m) = length (labelValues m) \<and>
     (\<exists>ts\<in>set (TimeSeries page). \<exists>met res. Metric ts = Some met \<and> Resource ts = Some res \<and>
        zip (labelKeys m) (labelValues m) =
          (''unit'', Descriptor_Unit md) # (''resource_type'', Resource_Type res) #
          Metric_Labels met @ Resource_Labels res))"
proof -
  have one: "\<forall>ts vt v met res. Metric ts = Some met \<and> Resource ts = Some res \<longrightarrow>
      (\<exists>m. seriesMetric E md ts vt v = Inr m \<and>
         labelKeys m = ''unit'' # ''resource_type'' # map fst (Metric_Labels met) @
           map fst (Resource_Labels res) \<and>
         labelValues m = Descriptor_Unit md # Resource_Type res # map snd (Metric_Labels met) @
           map snd (Resource_Labels res))"
    by (simp add: seriesMetric_def)
  have two: "\<forall>m\<in>set (fst (reportTimeSeriesMetrics E page md)).
     labelKeys m ! 0 = ''unit'' \<and> labelKeys m ! 1 = ''resource_type'' \<and>
     length (labelKeys m) = length (labelValues m) \<and>
     (\<exists>ts\<in>set (TimeSeries page). \<exists>met res. Metric ts = Some met \<and> Resource ts = Some res \<and>
        zip (labelKeys m) (labelValues m) =
          (''unit'', Descriptor_Unit md) # (''resource_type'', Resource_Type res) #
          Metric_Labels met @ Resource_Labels res)"
  proof
  fix m
  assume "m \<in> set (fst (reportTimeSeriesMetrics E page md))"
  then have "m \<in> set (fst (seriesLoop E md (TimeSeries page) None))"
    by (simp add: reportTimeSeriesMetrics_def)
  from seriesLoop_labels [OF this] obtain ts met res where
    l: "ts \<in> set (TimeSeries page)" "Metric ts = Some met" "Resource ts = Some res"
      "labelKeys m = ''unit'' # ''resource_type'' # map fst (Metric_Labels met) @
             map fst (Resource_Labels res)"
      "labelValues m = Descriptor_Unit md # Resource_Type res # map snd (Metric_Labels met) @
             map snd (Resource_Labels res)"
    by blast
  have "zip (labelKeys m) (labelValues m) =
          (''unit'', Descriptor_Unit md) # (''resource_type'', Resource_Type res) #
          Metric_Labels met @ Resource_Labels res"
    unfolding l(4,5) by (simp add: zip_map_fst_snd)
  with l show "labelKeys m ! 0 = ''unit'' \<and> labelKeys m ! 1 = ''resource_type'' \<and>
     length (labelKeys m) = length (labelValues m) \<and>
     (\<exists>ts\<in>set (TimeSeries page). \<exists>met res. Metric ts = Some met \<and> Resource ts = Some res \<and>
        zip (labelKeys m) (labelValues m) =
          (''unit'', Descriptor_Unit md) # (''resource_type'', Resource_Type res) #
          Metric_Labels met @ Resource_Labels res)"
    by auto
qed
  from one two show ?thesis by (rule conjI)
qed

text \<open>
  A page of the series of the examples, whose metric and resource both have a label
  \<open>zone\<close>, and of a series without labels: the first metric has both \<open>zone\<close> entries, the
  second the two fixed keys alone.
\<close>

theorem label_keys_and_values_witness:
  "map (\<lambda>m. (labelKeys m, labelValues m)) (fst (reportTimeSeriesMetrics demoEnv
     (demoPage [demoSeries ''GAUGE'' ''INT64'' [int64Point ''2017-05-01T10:00:00Z'' 7],
        \<lparr>Metric = Some \<lparr>Metric_Labels = [], Metric_Type = ''m''\<rparr>, MetricKind = ''GAUGE'',
         Points = [int64Point ''2017-05-01T10:00:00Z'' 7],
         Resource = Some \<lparr>Resource_Labels = [], Resource_Type = ''vm''\<rparr>,
         ValueType = ''INT64''\<rparr>]) demoDescriptor)) =
   [([''unit'', ''resource_type'', ''zone'', ''zone''], [''1'', ''vm'', ''a'', ''b'']),
    ([''unit'', ''resource_type''], [''1'', ''vm''])]"
  using label_keys_and_values [where E = demoEnv and md = demoDescriptor and page =
     "demoPage [demoSeries ''GAUGE'' ''INT64'' [int64Point ''2017-05-01T10:00:00Z'' 7],
        \<lparr>Metric = Some \<lparr>Metric_Labels = [], Metric_Type = ''m''\<rparr>, MetricKind = ''GAUGE'',
         Points = [int64Point ''2017-05-01T10:00:00Z'' 7],
         Resource = Some \<lparr>Resource_Labels = [], Resource_Type = ''vm''\<rparr>,
         ValueType = ''INT64''\<rparr>]"]
  by (simp add: demo_defs)


subsection \<open>Steps of the goroutines\<close>

lemma taskStep_out_of_range: "length (tasks s) \<le> i \<Longrightarrow> taskStep E A i s = None"
  by (simp add: taskStep_def)

lemma taskStep_Fetching:
  "i < length (tasks s) \<Longrightarrow> pc (tasks s ! i) = Fetching \<Longrightarrow>
   taskStep E A i s =
     Some (setTask i ((tasks s ! i)\<lparr>pc :=
         (case timeSeriesList A (length (requests s)) (timeSeriesListCall E A s (tasks s ! i)) of
            FetchError err \<Rightarrow> Sending err | NilPage \<Rightarrow> Finished | Page page \<Rightarrow> Draining page)\<rparr>)
       (s\<lparr>collector := (collector s)\<lparr>apiCallsTotalMetric := Suc (apiCallsTotalMetric (collector s))\<rparr>,
          requests := requests s @ [timeSeriesListCall E A s (tasks s ! i)]\<rparr>))"
  by (simp add: taskStep_def Let_def split: fetch_result.split)

lemma taskStep_Sending:
  "i < length (tasks s) \<Longrightarrow> pc (tasks s ! i) = Sending err \<Longrightarrow>
   taskStep E A i s =
     (case errChannel s of
        Some e \<Rightarrow> None
      | None \<Rightarrow> Some (setTask i ((tasks s ! i)\<lparr>pc := Finished\<rparr>)
                   (s\<lparr>errChannel := Some err, written := written s @ [err]\<rparr>)))"
  by (simp add: taskStep_def Let_def)

lemma taskStep_Draining:
  "i < length (tasks s) \<Longrightarrow> pc (tasks s ! i) = Draining page \<Longrightarrow>
   taskStep E A i s =
     Some (setTask i ((tasks s ! i)\<lparr>pc := Reporting page\<rparr>) (s\<lparr>errChannel := None\<rparr>))"
  by (simp add: taskStep_def Let_def)

lemma taskStep_Reporting:
  "i < length (tasks s) \<Longrightarrow> pc (tasks s ! i) = Reporting page \<Longrightarrow>
   reportTimeSeriesMetrics E page (metricDescriptor (tasks s ! i)) = (out, r) \<Longrightarrow>
   taskStep E A i s =
     (case r of
        Some Panic \<Rightarrow> Some (s\<lparr>sent := sent s @ out, panicked := True\<rparr>)
      | Some (Error err) \<Rightarrow>
          Some (setTask i ((tasks s ! i)\<lparr>pc := Sending err\<rparr>) (s\<lparr>sent := sent s @ out\<rparr>))
      | None \<Rightarrow>
          Some (setTask i
            (if NextPageToken page = [] then (tasks s ! i)\<lparr>pc := Finished\<rparr>
             else (tasks s ! i)\<lparr>pc := Fetching, pageToken := NextPageToken page\<rparr>)
            (s\<lparr>sent := sent s @ out\<rparr>)))"
  by (simp add: taskStep_def Let_def split: option.split failure.split)

lemma taskStep_Finished:
  "pc (tasks s ! i) = Finished \<Longrightarrow> taskStep E A i s = None"
  by (simp add: taskStep_def Let_def)



lemma taskStep_window:
  assumes "taskStep E A i s = Some s'"
  shows "startTime s' = startTime s \<and> endTime s' = endTime s \<and>
    (requests s' = requests s \<or>
     requests s' = requests s @ [timeSeriesListCall E A s (tasks s ! i)])"
proof -
  have i: "i < length (tasks s)"
    using assms taskStep_out_of_range [of s i E A] by (cases "i < length (tasks s)") auto
  show ?thesis
  proof (cases "pc (tasks s ! i)")
    case Fetching
    from assms show ?thesis
      unfolding taskStep_Fetching [OF i Fetching] setTask_def by auto
  next
    case (Sending err)
    from assms show ?thesis
      unfolding taskStep_Sending [OF i Sending] setTask_def
      by (cases "errChannel s") auto
  next
    case (Draining page)
    from assms show ?thesis
      unfolding taskStep_Draining [OF i Draining] setTask_def by auto
  next
    case (Reporting page)
    obtain out r where r: "reportTimeSeriesMetrics E page (metricDescriptor (tasks s ! i)) = (out, r)"
      by (cases "reportTimeSeriesMetrics E page (metricDescriptor (tasks s ! i))")
    show ?thesis
    proof (cases r)
      case None
      from assms show ?thesis
        unfolding taskStep_Reporting [OF i Reporting r] setTask_def None by auto
    next
      case (Some f)
      from assms show ?thesis
        unfolding taskStep_Reporting [OF i Reporting r] setTask_def Some
        by (cases f) auto
    qed
  next
    case Finished
    with assms show ?thesis by (simp add: taskStep_Finished)
  qed
qed


lemma step_Task: "step E A (Task i) s = (if panicked s then None else taskStep E A i s)"
  by (simp add: step_def)

lemma step_Waiter:
  "step E A Waiter s =
     (if \<not> panicked s \<and> \<not> doneChannel s \<and> list_all (\<lambda>t. pc t = Finished) (tasks s)
      then Some (s\<lparr>doneChannel := True\<rparr>) else None)"
  by (simp add: step_def)

lemma step_CoordinatorDone:
  "step E A CoordinatorDone s =
     (if \<not> panicked s \<and> returned s = None \<and> doneChannel s
      then Some (s\<lparr>returned := Some None\<rparr>) else None)"
  by (simp add: step_def)

lemma step_CoordinatorErr:
  "step E A CoordinatorErr s =
     (case errChannel s of
        None \<Rightarrow> None
      | Some err \<Rightarrow>
          if \<not> panicked s \<and> returned s = None
          then Some (s\<lparr>errChannel := None, returned := Some (Some err)\<rparr>) else None)"
  by (simp add: step_def split: option.split)

lemma step_window:
  assumes "step E A a s = Some s'"
  shows "startTime s' = startTime s \<and> endTime s' = endTime s \<and>
    (requests s' = requests s \<or>
     (\<exists>t. requests s' = requests s @ [timeSeriesListCall E A s t]))"
proof (cases a)
  case (Task i)
  with assms have "taskStep E A i s = Some s'"
    by (simp add: step_Task split: if_splits)
  from taskStep_window [OF this] show ?thesis by blast
next
  case Waiter
  with assms show ?thesis by (simp add: step_Waiter split: if_splits) auto
next
  case CoordinatorDone
  with assms show ?thesis by (simp add: step_CoordinatorDone split: if_splits) auto
next
  case CoordinatorErr
  with assms show ?thesis
    by (cases "errChannel s") (simp_all add: step_CoordinatorErr split: if_splits, auto)
qed

lemma run_Cons_SomeD:
  "run E A (a # sched) s = Some s' \<Longrightarrow> \<exists>s1. step E A a s = Some s1 \<and> run E A sched s1 = Some s'"
  by (cases "step E A a s") simp_all

lemma run_window:
  "run E A sched s = Some s' \<Longrightarrow>
   \<forall>r\<in>set (requests s). intervalStartTime r = formatTime E (startTime s) \<and>
      intervalEndTime r = formatTime E (endTime s) \<Longrightarrow>
   startTime s' = startTime s \<and> endTime s' = endTime s \<and>
   (\<forall>r\<in>set (requests s'). intervalStartTime r = formatTime E (startTime s) \<and>
      intervalEndTime r = formatTime E (endTime s))"
proof (induction sched arbitrary: s)
  case Nil
  then show ?case by simp
next
  case (Cons a sched)
  from run_Cons_SomeD [OF Cons.prems(1)]
  obtain s1 where s1: "step E A a s = Some s1" "run E A sched s1 = Some s'"
    by blast
  from step_window [OF s1(1)]
  have eq: "startTime s1 = startTime s" "endTime s1 = endTime s"
    and rq: "requests s1 = requests s \<or> (\<exists>t. requests s1 = requests s @ [timeSeriesListCall E A s t])"
    by simp_all
  have "\<forall>r\<in>set (requests s1). intervalStartTime r = formatTime E (startTime s1) \<and>
      intervalEndTime r = formatTime E (endTime s1)"
    using rq Cons.prems(2) eq by (auto simp: timeSeriesListCall_def)
  from Cons.IH [OF s1(2) this] eq show ?case by simp
qed

subsection \<open>Evaluating the examples of the fan-out\<close>

lemmas scope_defs = step_def taskStep_def setTask_def metricDescriptorsFunction_def
  timeSeriesListCall_def demoApi_def demoCollector_def descriptorOf_def metricTypeFilter_def
  demoFormat_def Let_def

lemmas top_defs = topStep_def prefixStep_def reportMonitoringMetrics_def demoPages_def
  demoCollector_def topEnabled_def Let_def

subsection \<open>The window of the requests\<close>

text \<open>
  Claim C4, amended. The window is computed by every call of \<open>metricDescriptorsFunction\<close>,
  that is once for every page of metric descriptors of every prefix, from two readings of
  the clock: it starts at the first reading less the interval and ends at the second.
  Within the call it does not change: in every state that the goroutines of the call reach,
  under every schedule, every request made so far carries that start and that end, and a
  goroutine about to fetch makes one more request, for its descriptor and with the same
  window.
\<close>

theorem window_of_descriptor_page:
  assumes "run E A sched (metricDescriptorsFunction c now1 now2 ds) = Some s"
  shows "(\<forall>r\<in>set (requests s).
           intervalStartTime r = formatTime E (now1 + sint (metricsInterval c * (- 1))) \<and>
           intervalEndTime r = formatTime E now2) \<and>
         (\<forall>i. i < length (tasks s) \<and> pc (tasks s ! i) = Fetching \<and> \<not> panicked s \<longrightarrow>
            (\<exists>s' r. step E A (Task i) s = Some s' \<and> requests s' = requests s @ [r] \<and>
               filter_param r = metricTypeFilter (Descriptor_Type (metricDescriptor (tasks s ! i))) \<and>
               intervalStartTime r = formatTime E (now1 + sint (metricsInterval c * (- 1))) \<and>
               intervalEndTime r = formatTime E now2))"
proof -
  from run_window [OF assms]
  have w: "startTime s = now1 + sint (metricsInterval c * (- 1))" "endTime s = now2"
    and rq: "\<forall>r\<in>set (requests s).
           intervalStartTime r = formatTime E (now1 + sint (metricsInterval c * (- 1))) \<and>
           intervalEndTime r = formatTime E now2"
    by (simp_all add: metricDescriptorsFunction_def)
  have "\<forall>i. i < length (tasks s) \<and> pc (tasks s ! i) = Fetching \<and> \<not> panicked s \<longrightarrow>
            (\<exists>s' r. step E A (Task i) s = Some s' \<and> requests s' = requests s @ [r] \<and>
               filter_param r = metricTypeFilter (Descriptor_Type (metricDescriptor (tasks s ! i))) \<and>
               intervalStartTime r = formatTime E (now1 + sint (metricsInterval c * (- 1))) \<and>
               intervalEndTime r = formatTime E now2)"
    using w by (simp add: step_Task taskStep_Fetching setTask_def timeSeriesListCall_def)
  with rq show ?thesis by (rule conjI)
qed

text \<open>
  A call at the readings 10:00:00 and 10:00:02 with an interval of five minutes: the two
  requests of its two goroutines both carry the window from 09:55:00 to 10:00:02.
\<close>

theorem window_of_descriptor_page_witness:
  "map_option (\<lambda>s. map (\<lambda>r. (intervalStartTime r, intervalEndTime r)) (requests s))
     (run demoEnv demoApi [Task 0, Task 1, Task 0, Task 0]
        (metricDescriptorsFunction demoCollector 1493632800000000000 1493632802000000000
           [descriptorOf ''ok'', descriptorOf ''b''])) =
   Some [(''2017-05-01T09:55:00Z'', ''2017-05-01T10:00:02Z''),
         (''2017-05-01T09:55:00Z'', ''2017-05-01T10:00:02Z'')]"
  using window_of_descriptor_page [of demoEnv demoApi "[Task 0, Task 1, Task 0, Task 0]"
    demoCollector 1493632800000000000 1493632802000000000 "[descriptorOf ''ok'', descriptorOf ''b'']"]
  by (simp add: scope_defs demo_defs)

text \<open>
  As claim C4 states it, one window for the whole scrape, it fails as soon as a scrape
  calls \<open>metricDescriptorsFunction\<close> twice, for two prefixes or two pages of descriptors:
  the call that reads the clock at 10:00:00 asks for 09:55:00 to 10:00:00, the call that
  reads it at 10:00:02 for 09:55:02 to 10:00:02.
\<close>

theorem window_per_scrape_counterexample:
  "map_option (\<lambda>s. map (\<lambda>r. (intervalStartTime r, intervalEndTime r)) (requests s))
     (run demoEnv demoApi [Task 0]
        (metricDescriptorsFunction demoCollector 1493632800000000000 1493632800000000000
           [descriptorOf ''ok''])) =
   Some [(''2017-05-01T09:55:00Z'', ''2017-05-01T10:00:00Z'')] \<and>
   map_option (\<lambda>s. map (\<lambda>r. (intervalStartTime r, intervalEndTime r)) (requests s))
     (run demoEnv demoApi [Task 0]
        (metricDescriptorsFunction demoCollector 1493632802000000000 1493632802000000000
           [descriptorOf ''b''])) =
   Some [(''2017-05-01T09:55:02Z'', ''2017-05-01T10:00:02Z'')]"
  by (simp add: scope_defs demo_defs)

subsection \<open>An end time that does not parse\<close>









subsection \<open>The error channel\<close>

lemma taskStep_errors:
  assumes "taskStep E A i s = Some s'"
      and "\<forall>e. errChannel s = Some e \<longrightarrow> e \<in> set (written s)"
      and "\<forall>e. returned s = Some (Some e) \<longrightarrow> e \<in> set (written s)"
  shows "(\<forall>e. errChannel s' = Some e \<longrightarrow> e \<in> set (written s')) \<and>
         (\<forall>e. returned s' = Some (Some e) \<longrightarrow> e \<in> set (written s'))"
proof -
  have i: "i < length (tasks s)"
    using assms(1) taskStep_out_of_range [of s i E A] by (cases "i < length (tasks s)") auto
  show ?thesis
  proof (cases "pc (tasks s ! i)")
    case Fetching
    from assms show ?thesis
      unfolding taskStep_Fetching [OF i Fetching] setTask_def by auto
  next
    case (Sending err)
    from assms show ?thesis
      unfolding taskStep_Sending [OF i Sending] setTask_def
      by (cases "errChannel s") auto
  next
    case (Draining page)
    from assms show ?thesis
      unfolding taskStep_Draining [OF i Draining] setTask_def by auto
  next
    case (Reporting page)
    obtain out r where r: "reportTimeSeriesMetrics E page (metricDescriptor (tasks s ! i)) = (out, r)"
      by (cases "reportTimeSeriesMetrics E page (metricDescriptor (tasks s ! i))")
    show ?thesis
    proof (cases r)
      case None
      from assms show ?thesis
        unfolding taskStep_Reporting [OF i Reporting r] setTask_def None by auto
    next
      case (Some f)
      from assms show ?thesis
        unfolding taskStep_Reporting [OF i Reporting r] setTask_def Some
        by (cases f) auto
    qed
  next
    case Finished
    with assms show ?thesis by (simp add: taskStep_Finished)
  qed
qed

lemma step_errors:
  assumes "step E A a s = Some s'"
      and "\<forall>e. errChannel s = Some e \<longrightarrow> e \<in> set (written s)"
      and "\<forall>e. returned s = Some (Some e) \<longrightarrow> e \<in> set (written s)"
  shows "(\<forall>e. errChannel s' = Some e \<longrightarrow> e \<in> set (written s')) \<and>
         (\<forall>e. returned s' = Some (Some e) \<longrightarrow> e \<in> set (written s'))"
proof (cases a)
  case (Task i)
  with assms(1) have "taskStep E A i s = Some s'"
    by (simp add: step_Task split: if_splits)
  from taskStep_errors [OF this assms(2,3)] show ?thesis .
next
  case Waiter
  with assms show ?thesis by (simp add: step_Waiter split: if_splits) auto
next
  case CoordinatorDone
  with assms show ?thesis by (simp add: step_CoordinatorDone split: if_splits) auto
next
  case CoordinatorErr
  with assms show ?thesis
    by (cases "errChannel s") (simp_all add: step_CoordinatorErr split: if_splits, auto)
qed

lemma run_errors:
  "run E A sched s = Some s' \<Longrightarrow>
   \<forall>e. errChannel s = Some e \<longrightarrow> e \<in> set (written s) \<Longrightarrow>
   \<forall>e. returned s = Some (Some e) \<longrightarrow> e \<in> set (written s) \<Longrightarrow>
   (\<forall>e. errChannel s' = Some e \<longrightarrow> e \<in> set (written s')) \<and>
   (\<forall>e. returned s' = Some (Some e) \<longrightarrow> e \<in> set (written s'))"
proof (induction sched arbitrary: s)
  case Nil
  then show ?case by simp
next
  case (Cons a sched)
  from run_Cons_SomeD [OF Cons.prems(1)]
  obtain s1 where s1: "step E A a s = Some s1" "run E A sched s1 = Some s'"
    by blast
  from step_errors [OF s1(1) Cons.prems(2,3)] Cons.IH [OF s1(2)] show ?case by blast
qed

text \<open>
  What the channel of capacity 1 does give, in every state a call reaches: the error the
  call returned was written by one of its goroutines; once the call has returned, its
  \<^verbatim>\<open>select\<close> takes nothing more; and a goroutine at its send completes the send where the
  buffer is empty and cannot move where it is full.
\<close>

lemma errChannel_slot:
  assumes "run E A sched (metricDescriptorsFunction c now1 now2 ds) = Some s"
  shows "(\<forall>err. returned s = Some (Some err) \<longrightarrow> err \<in> set (written s)) \<and>
         (returned s \<noteq> None \<longrightarrow>
            step E A CoordinatorDone s = None \<and> step E A CoordinatorErr s = None) \<and>
         (\<forall>i err. i < length (tasks s) \<and> pc (tasks s ! i) = Sending err \<longrightarrow>
            (case errChannel s of
               Some e \<Rightarrow> step E A (Task i) s = None
             | None \<Rightarrow> panicked s \<or>
                 step E A (Task i) s =
                   Some (setTask i ((tasks s ! i)\<lparr>pc := Finished\<rparr>)
                     (s\<lparr>errChannel := Some err, written := written s @ [err]\<rparr>))))"
proof -
  have "\<forall>err. returned s = Some (Some err) \<longrightarrow> err \<in> set (written s)"
    using run_errors [OF assms] by (simp add: metricDescriptorsFunction_def)
  moreover have "returned s \<noteq> None \<longrightarrow>
      step E A CoordinatorDone s = None \<and> step E A CoordinatorErr s = None"
    by (cases "errChannel s") (simp_all add: step_CoordinatorDone step_CoordinatorErr)
  moreover have "\<forall>i err. i < length (tasks s) \<and> pc (tasks s ! i) = Sending err \<longrightarrow>
            (case errChannel s of
               Some e \<Rightarrow> step E A (Task i) s = None
             | None \<Rightarrow> panicked s \<or>
                 step E A (Task i) s =
                   Some (setTask i ((tasks s ! i)\<lparr>pc := Finished\<rparr>)
                     (s\<lparr>errChannel := Some err, written := written s @ [err]\<rparr>)))"
  proof (intro allI impI)
    fix i err
    assume a: "i < length (tasks s) \<and> pc (tasks s ! i) = Sending err"
    then have "taskStep E A i s =
       (case errChannel s of
          Some e \<Rightarrow> None
        | None \<Rightarrow> Some (setTask i ((tasks s ! i)\<lparr>pc := Finished\<rparr>)
                   (s\<lparr>errChannel := Some err, written := written s @ [err]\<rparr>)))"
      by (simp add: taskStep_Sending)
    then show "case errChannel s of
               Some e \<Rightarrow> step E A (Task i) s = None
             | None \<Rightarrow> panicked s \<or>
                 step E A (Task i) s =
                   Some (setTask i ((tasks s ! i)\<lparr>pc := Finished\<rparr>)
                     (s\<lparr>errChannel := Some err, written := written s @ [err]\<rparr>))"
      by (cases "errChannel s") (simp_all add: step_Task)
  qed
  ultimately show ?thesis by blast
qed

text \<open>
  Claim C9 says that the coordinator only ever observes the error of the first task that
  failed and that every later write of an error completes without blocking its writer.
  The send \<^verbatim>\<open>errChannel <- err\<close> is a blocking send on a channel of capacity 1, and the
  \<^verbatim>\<open>select\<close> in the goroutines receives from the same channel. Evaluated on three schedules:
  \<^item> three descriptors whose fetches fail: the first error is written and returned, the
    second is written to the emptied buffer, and the third goroutine stands at its send
    with the buffer full and nothing left that can move;
  \<^item> a descriptor that fails, one that succeeds and one that fails: the first error is
    received by the \<^verbatim>\<open>select\<close> of the second goroutine, and the call returns the error
    written second;
  \<^item> three prefixes whose listings fail, in \<open>reportMonitoringMetrics\<close>: as in the first.
\<close>

theorem third_error_write_blocks:
  "map_option (\<lambda>s. (map pc (tasks s), errChannel s, written s, returned s, enabled demoEnv demoApi s))
     (run demoEnv demoApi [Task 0, Task 0, CoordinatorErr, Task 1, Task 1, Task 2]
        (metricDescriptorsFunction demoCollector 1493632800000000000 1493632800000000000
           [descriptorOf ''a'', descriptorOf ''b'', descriptorOf ''c''])) =
   Some ([Finished, Finished, Sending (''failed '' @ metricTypeFilter ''c'')],
         Some (''failed '' @ metricTypeFilter ''b''),
         [''failed '' @ metricTypeFilter ''a'', ''failed '' @ metricTypeFilter ''b''],
         Some (Some (''failed '' @ metricTypeFilter ''a'')), []) \<and>
   map_option (\<lambda>s. (map pc (tasks s), errChannel s, written s, returned s))
     (run demoEnv demoApi [Task 1, Task 0, Task 0, Task 1, Task 2, Task 2, CoordinatorErr]
        (metricDescriptorsFunction demoCollector 1493632800000000000 1493632800000000000
           [descriptorOf ''a'', descriptorOf ''ok'', descriptorOf ''c''])) =
   Some ([Finished, Reporting (demoPage [demoSeries ''GAUGE'' ''INT64''
            [int64Point ''2017-05-01T10:00:00Z'' 7]]), Finished],
         None,
         [''failed '' @ metricTypeFilter ''a'', ''failed '' @ metricTypeFilter ''c''],
         Some (Some (''failed '' @ metricTypeFilter ''c''))) \<and>
   map_option (\<lambda>u. (map prefix_pc (prefixTasks u), top_errChannel u, top_written u,
       top_returned u, topEnabled demoPages u))
     (topRun demoPages [Task 0, Task 0, CoordinatorErr, Task 1, Task 1, Task 2]
        (reportMonitoringMetrics (demoCollector\<lparr>metricsTypePrefixes := [''a'', ''b'', ''c'']\<rparr>))) =
   Some ([PrefixFinished, PrefixFinished, PrefixSending ''failed c''], Some ''failed b'',
         [''failed a'', ''failed b''], Some (Some ''failed a''), [])"
  by (simp add: scope_defs top_defs demo_defs enabled_def actors_def)

subsection \<open>The bookkeeping of a scrape\<close>




end
